theory Spec2Isabelle
  imports Complex_Main "HOL-Library.Sublist"
begin

section \<open>The observation store (services/database.js)\<close>

text \<open>
  The store is a SQLite database behind the class \<open>SessionStore\<close>. Its tables are
  modelled as lists of rows in insertion order, its statements as functions that take the
  database and return the new one. A JavaScript string is a \<open>string\<close>, one \<open>char\<close>
  for each code unit (code units below 256 only); a column that may be NULL is an
  \<open>option\<close>. Every call of \<open>new Date()\<close> is a parameter of the operation that makes it.
\<close>

subsection \<open>Rows and the database\<close>

record clock =
  toISOString :: string
  getTime :: int

record session_row =
  s_id :: int
  s_session_id :: string
  s_project :: string
  s_user_prompt :: "string option"
  s_prompt_counter :: int
  s_started_at :: string
  s_started_at_epoch :: int
  s_completed_at :: "string option"
  s_completed_at_epoch :: "int option"
  s_status :: string

record observation_row =
  r_id :: int
  r_session_id :: string
  r_project :: string
  r_type :: string
  r_title :: "string option"
  r_subtitle :: "string option"
  r_facts :: "string option"
  r_narrative :: "string option"
  r_concepts :: "string option"
  r_files_read :: "string option"
  r_files_modified :: "string option"
  r_prompt_number :: "int option"
  r_discovery_tokens :: int
  r_created_at :: string
  r_created_at_epoch :: int

record summary_row =
  m_id :: int
  m_session_id :: string
  m_project :: string
  m_request :: "string option"
  m_investigated :: "string option"
  m_learned :: "string option"
  m_completed :: "string option"
  m_next_steps :: "string option"
  m_notes :: "string option"
  m_prompt_number :: "int option"
  m_discovery_tokens :: int
  m_created_at :: string
  m_created_at_epoch :: int

text \<open>
  Each table carries the counter that \<open>AUTOINCREMENT\<close> keeps for it in
  \<open>sqlite_sequence\<close>: the largest rowid the table has ever held.
\<close>

record database =
  sessions :: "session_row list"
  sessions_seq :: int
  observations :: "observation_row list"
  observations_seq :: int
  session_summaries :: "summary_row list"
  session_summaries_seq :: int

definition empty_database :: database where
  "empty_database =
     \<lparr>sessions = [], sessions_seq = 0, observations = [], observations_seq = 0,
      session_summaries = [], session_summaries_seq = 0\<rparr>"

text \<open>The errors that the engine raises and \<open>better-sqlite3\<close> throws.\<close>

datatype db_error =
  SQLITE_CONSTRAINT_CHECK
  | SQLITE_CONSTRAINT_FOREIGNKEY
  | SQLITE_ERROR

text \<open>
  The rowid of an \<open>AUTOINCREMENT\<close> table: one more than the largest rowid that the
  table holds or has ever held.
\<close>

definition next_rowid :: "int \<Rightarrow> int list \<Rightarrow> int" where
  "next_rowid seq ids = 1 + fold max ids seq"

subsection \<open>JavaScript's \<open>||\<close> on values that are a string or absent\<close>

text \<open>\<open>x || d\<close>: the empty string, \<open>null\<close> and \<open>undefined\<close> are falsy.\<close>

definition or_default :: "string option \<Rightarrow> string \<Rightarrow> string" where
  "or_default x d = (case x of None \<Rightarrow> d | Some s \<Rightarrow> if s = [] then d else s)"

text \<open>\<open>x || null\<close>.\<close>

definition or_null :: "string option \<Rightarrow> string option" where
  "or_null x = (case x of None \<Rightarrow> None | Some s \<Rightarrow> if s = [] then None else Some s)"

text \<open>
  A branch on a value that is a string or absent: \<open>x ? f(x) : d\<close>, where the empty
  string, \<open>null\<close> and \<open>undefined\<close> are falsy.
\<close>

definition if_truthy :: "string option \<Rightarrow> (string \<Rightarrow> 'a) \<Rightarrow> 'a \<Rightarrow> 'a" where
  "if_truthy x f d = (case x of None \<Rightarrow> d | Some s \<Rightarrow> if s = [] then d else f s)"

subsection \<open>Session operations\<close>

text \<open>
  \<open>INSERT OR IGNORE INTO sessions\<close>: the row is skipped when \<open>session_id\<close>, which is
  \<open>UNIQUE\<close>, is already there. Returns \<open>changes\<close> and the database.
\<close>

definition new_session_row ::
  "database \<Rightarrow> clock \<Rightarrow> string \<Rightarrow> string \<Rightarrow> string \<Rightarrow> session_row" where
  "new_session_row db now sessionId project userPrompt =
     \<lparr>s_id = next_rowid (sessions_seq db) (map s_id (sessions db)),
      s_session_id = sessionId, s_project = project,
      s_user_prompt = Some userPrompt, s_prompt_counter = 0,
      s_started_at = toISOString now, s_started_at_epoch = getTime now,
      s_completed_at = None, s_completed_at_epoch = None,
      s_status = ''active''\<rparr>"

definition insert_or_ignore_session ::
  "database \<Rightarrow> clock \<Rightarrow> string \<Rightarrow> string \<Rightarrow> string \<Rightarrow> nat \<times> database" where
  "insert_or_ignore_session db now sessionId project userPrompt =
     (if \<exists>s \<in> set (sessions db). s_session_id s = sessionId then (0, db)
      else
        let row = new_session_row db now sessionId project userPrompt
        in (1, db\<lparr>sessions := sessions db @ [row], sessions_seq := s_id row\<rparr>))"

text \<open>\<open>UPDATE sessions SET project = ?, user_prompt = ? WHERE session_id = ?\<close>\<close>

definition update_project_prompt :: "database \<Rightarrow> string \<Rightarrow> string \<Rightarrow> string \<Rightarrow> database" where
  "update_project_prompt db project userPrompt sessionId =
     db\<lparr>sessions :=
          map (\<lambda>s. if s_session_id s = sessionId
                    then s\<lparr>s_project := project, s_user_prompt := Some userPrompt\<rparr> else s)
              (sessions db)\<rparr>"

text \<open>\<open>SELECT * FROM sessions WHERE session_id = ?\<close>, first row or \<open>undefined\<close>.\<close>

definition getSession :: "database \<Rightarrow> string \<Rightarrow> session_row option" where
  "getSession db sessionId = find (\<lambda>s. s_session_id s = sessionId) (sessions db)"

definition createSession ::
  "database \<Rightarrow> clock \<Rightarrow> string \<Rightarrow> string \<Rightarrow> string \<Rightarrow> int option \<times> database" where
  "createSession db now sessionId project userPrompt =
     (let (changes, db1) = insert_or_ignore_session db now sessionId project userPrompt;
          db2 = (if changes = 0 \<and> project \<noteq> []
                 then update_project_prompt db1 project userPrompt sessionId else db1)
      in (map_option s_id (getSession db2 sessionId), db2))"

text \<open>
  \<open>UPDATE sessions SET prompt_counter = prompt_counter + 1\<close>, then
  \<open>result?.prompt_counter || 1\<close>: no row and a counter of 0 both give 1.
\<close>

definition incrementPromptCounter :: "database \<Rightarrow> string \<Rightarrow> int \<times> database" where
  "incrementPromptCounter db sessionId =
     (let db1 = db\<lparr>sessions :=
                   map (\<lambda>s. if s_session_id s = sessionId
                             then s\<lparr>s_prompt_counter := s_prompt_counter s + 1\<rparr> else s)
                       (sessions db)\<rparr>
      in (case getSession db1 sessionId of
            None \<Rightarrow> 1
          | Some result \<Rightarrow> if s_prompt_counter result = 0 then 1 else s_prompt_counter result,
          db1))"

definition getPromptCounter :: "database \<Rightarrow> string \<Rightarrow> int" where
  "getPromptCounter db sessionId =
     (case getSession db sessionId of None \<Rightarrow> 0 | Some result \<Rightarrow> s_prompt_counter result)"

subsection \<open>\<open>JSON.stringify\<close> on an array of strings\<close>

text \<open>
  The array fields of an observation are written with \<open>JSON.stringify\<close>. On an array of
  strings it writes \<open>[\<close>, the quoted elements separated by commas, and \<open>]\<close>; a string is
  quoted by the language's \<open>QuoteJSONString\<close>: the quote, the backslash and the code units
  below 0x20 are escaped, every other code unit is copied.
\<close>

definition hex_digit :: "nat \<Rightarrow> char" where
  "hex_digit n = ''0123456789abcdef'' ! n"

definition UnicodeEscape :: "char \<Rightarrow> string" where
  "UnicodeEscape c =
     [CHR 0x5C, CHR ''u'', CHR ''0'', CHR ''0'',
      hex_digit ((of_char c :: nat) div 16), hex_digit ((of_char c :: nat) mod 16)]"

definition QuoteJSONChar :: "char \<Rightarrow> string" where
  "QuoteJSONChar c =
     (if c = CHR 0x08 then [CHR 0x5C, CHR ''b'']
      else if c = CHR 0x09 then [CHR 0x5C, CHR ''t'']
      else if c = CHR 0x0A then [CHR 0x5C, CHR ''n'']
      else if c = CHR 0x0C then [CHR 0x5C, CHR ''f'']
      else if c = CHR 0x0D then [CHR 0x5C, CHR ''r'']
      else if c = CHR 0x22 then [CHR 0x5C, CHR 0x22]
      else if c = CHR 0x5C then [CHR 0x5C, CHR 0x5C]
      else if (of_char c :: nat) < 32 then UnicodeEscape c
      else [c])"

definition QuoteJSONString :: "string \<Rightarrow> string" where
  "QuoteJSONString s = CHR 0x22 # concat (map QuoteJSONChar s) @ [CHR 0x22]"

fun join :: "string \<Rightarrow> string list \<Rightarrow> string" where
  "join sep [] = []"
| "join sep [x] = x"
| "join sep (x # y # ys) = x @ sep @ join sep (y # ys)"

definition JSON_stringify :: "string list \<Rightarrow> string" where
  "JSON_stringify xs = ''['' @ join '','' (map QuoteJSONString xs) @ '']''"

subsection \<open>Observation operations\<close>

text \<open>
  The observation that a caller passes: each field is a string, an array of strings, or
  absent (\<open>undefined\<close> or \<open>null\<close>).
\<close>

record observation =
  o_type :: "string option"
  o_title :: "string option"
  o_subtitle :: "string option"
  o_facts :: "string list option"
  o_narrative :: "string option"
  o_concepts :: "string list option"
  o_files_read :: "string list option"
  o_files_modified :: "string list option"

record store_result =
  sr_id :: int
  sr_createdAtEpoch :: int

text \<open>\<open>observation.facts || []\<close>: every array is truthy, the empty one too.\<close>

definition or_empty :: "string list option \<Rightarrow> string list" where
  "or_empty x = (case x of None \<Rightarrow> [] | Some xs \<Rightarrow> xs)"

text \<open>The values that \<open>storeObservation\<close> binds to its \<open>INSERT\<close>, for the row of a given rowid.\<close>

definition observation_values ::
  "clock \<Rightarrow> string \<Rightarrow> string \<Rightarrow> observation \<Rightarrow> int option \<Rightarrow> int \<Rightarrow> int \<Rightarrow> observation_row" where
  "observation_values now sessionId project observation promptNumber discoveryTokens rowid =
     \<lparr>r_id = rowid,
      r_session_id = sessionId,
      r_project = project,
      r_type = or_default (o_type observation) ''change'',
      r_title = or_null (o_title observation),
      r_subtitle = or_null (o_subtitle observation),
      r_facts = Some (JSON_stringify (or_empty (o_facts observation))),
      r_narrative = or_null (o_narrative observation),
      r_concepts = Some (JSON_stringify (or_empty (o_concepts observation))),
      r_files_read = Some (JSON_stringify (or_empty (o_files_read observation))),
      r_files_modified = Some (JSON_stringify (or_empty (o_files_modified observation))),
      r_prompt_number = promptNumber,
      r_discovery_tokens = discoveryTokens,
      r_created_at = toISOString now,
      r_created_at_epoch = getTime now\<rparr>"

text \<open>The \<open>CHECK\<close> constraint of the column \<open>type\<close>.\<close>

definition valid_types :: "string list" where
  "valid_types = [''decision'', ''bugfix'', ''feature'', ''refactor'', ''discovery'', ''change'']"

text \<open>
  \<open>INSERT INTO observations\<close>. The engine refuses a row whose type fails the \<open>CHECK\<close>
  constraint, and (with \<open>foreign_keys = ON\<close>) a row whose \<open>session_id\<close> is in no row of
  \<open>sessions\<close>; \<open>better-sqlite3\<close> throws in both cases and the table is unchanged. The
  trigger \<open>observations_ai\<close> copies the four text columns of the new row to the full-text
  index in the same statement, so the index always holds these columns of every row.
\<close>

definition insert_observation ::
  "database \<Rightarrow> (int \<Rightarrow> observation_row) \<Rightarrow> (db_error + int) \<times> database" where
  "insert_observation db vals =
     (let rowid = next_rowid (observations_seq db) (map r_id (observations db));
          row = vals rowid
      in if r_type row \<notin> set valid_types then (Inl SQLITE_CONSTRAINT_CHECK, db)
         else if \<not> (\<exists>s \<in> set (sessions db). s_session_id s = r_session_id row)
           then (Inl SQLITE_CONSTRAINT_FOREIGNKEY, db)
         else (Inr rowid, db\<lparr>observations := observations db @ [row], observations_seq := rowid\<rparr>))"

text \<open>
  \<open>storeObservation\<close> reads the clock (\<open>now\<close>), then calls \<open>createSession\<close>, which reads
  it again (\<open>now_session\<close>). An exception of the \<open>INSERT\<close> leaves the session that
  \<open>createSession\<close> wrote: there is no transaction around the two statements.
\<close>

definition storeObservation ::
  "database \<Rightarrow> clock \<Rightarrow> clock \<Rightarrow> string \<Rightarrow> string \<Rightarrow> observation \<Rightarrow> int option \<Rightarrow> int
     \<Rightarrow> (db_error + store_result) \<times> database" where
  "storeObservation db now now_session sessionId project observation promptNumber discoveryTokens =
     (let (_, db1) = createSession db now_session sessionId project [];
          (result, db2) = insert_observation db1
             (observation_values now sessionId project observation promptNumber discoveryTokens)
      in (case result of
            Inl err \<Rightarrow> Inl err
          | Inr lastInsertRowid \<Rightarrow> Inr \<lparr>sr_id = lastInsertRowid, sr_createdAtEpoch = getTime now\<rparr>,
          db2))"

text \<open>\<open>SELECT * FROM observations WHERE id = ?\<close>: the row as the table holds it.\<close>

definition getObservationById :: "database \<Rightarrow> int \<Rightarrow> observation_row option" where
  "getObservationById db i = find (\<lambda>r. r_id r = i) (observations db)"

subsection \<open>Search\<close>

text \<open>
  The full-text index \<open>observations_fts\<close> holds the columns title, subtitle, narrative
  and facts of every observation (the triggers keep it so), and the query joins it to the
  table by rowid. What \<open>MATCH\<close> accepts is the engine's business: it is the parameter
  \<open>fts5\<close>, which gives for a query the predicate on the indexed columns, or nothing
  when the engine rejects the query as malformed and \<open>better-sqlite3\<close> throws.
  \<open>if (project)\<close> adds the project to the \<open>WHERE\<close> clause; \<open>ORDER BY
  created_at_epoch DESC\<close> is a stable sort of the table order here (the engine leaves the
  order of equal epochs open); a negative \<open>LIMIT\<close> is no limit.
\<close>

type_synonym fts_doc = "string option \<times> string option \<times> string option \<times> string option"

definition fts_columns :: "observation_row \<Rightarrow> fts_doc" where
  "fts_columns r = (r_title r, r_subtitle r, r_narrative r, r_facts r)"

definition sql_limit :: "int \<Rightarrow> 'a list \<Rightarrow> 'a list" where
  "sql_limit n rows = (if n < 0 then rows else take (nat n) rows)"

definition searchObservations ::
  "(string \<Rightarrow> (fts_doc \<Rightarrow> bool) option) \<Rightarrow> database \<Rightarrow> string \<Rightarrow> string option \<Rightarrow> int
     \<Rightarrow> db_error + observation_row list" where
  "searchObservations fts5 db query project limit =
     (case fts5 query of
        None \<Rightarrow> Inl SQLITE_ERROR
      | Some matches \<Rightarrow>
          let whereclause =
                if_truthy project
                  (\<lambda>p r. matches (fts_columns r) \<and> r_project r = p)
                  (\<lambda>r. matches (fts_columns r))
          in Inr (sql_limit limit
                    (sort_key (\<lambda>r. - r_created_at_epoch r)
                       (filter whereclause (observations db)))))"

subsection \<open>Summary operations\<close>





section \<open>The context generator (services/context-generator.js)\<close>

text \<open>\<open>obs.title?.length || 0\<close>: the length in code units, 0 for NULL.\<close>

definition length_or_0 :: "string option \<Rightarrow> nat" where
  "length_or_0 x = (case x of None \<Rightarrow> 0 | Some s \<Rightarrow> length s)"

text \<open>
  The size of one observation in the reduction of \<open>totalReadTokens\<close>; \<open>obs.facts\<close> is
  the JSON text of the column.
\<close>

definition read_size :: "observation_row \<Rightarrow> nat" where
  "read_size obs =
     length_or_0 (r_title obs) + length_or_0 (r_subtitle obs)
     + length_or_0 (r_narrative obs) + length_or_0 (r_facts obs)"

text \<open>
  \<open>observations.reduce((sum, obs) => sum + Math.ceil(size / 4), 0)\<close>. The division is
  exact in floating point for every size a string can have.
\<close>

definition totalReadTokens :: "observation_row list \<Rightarrow> nat" where
  "totalReadTokens obss =
     foldl (\<lambda>sum obs. sum + nat \<lceil>real (read_size obs) / 4\<rceil>) 0 obss"

definition totalDiscoveryTokens :: "observation_row list \<Rightarrow> int" where
  "totalDiscoveryTokens obss =
     foldl (\<lambda>sum obs. sum + r_discovery_tokens obs) 0 obss"

subsection \<open>Reading the JSON text back\<close>

text \<open>
  \<open>parseJsonArray\<close> reads a column with the runtime's \<open>JSON.parse\<close> and keeps the result
  when it is an array. \<open>JSON.parse\<close> is modelled on the texts that are arrays of strings,
  as a machine that reads one code unit at a time: white space between the tokens, the
  escapes of JSON inside a string (a four-digit escape only for a code unit below 256), no raw
  control character inside a string, nothing but white space after the closing bracket.
  Every other text gives \<open>None\<close>; \<open>parseJsonArray\<close> turns a syntax error and a value that
  is not an array into the empty array alike. An array with an element that is not a
  string, which \<open>storeObservation\<close> never writes, is outside this model.
\<close>

datatype json_state =
    Start
  | FirstElem
  | NextElem "string list"
  | InString "string list" string
  | Escape "string list" string
  | Unicode "string list" string "nat list"
  | AfterElem "string list"
  | Done "string list"

definition is_ws :: "char \<Rightarrow> bool" where
  "is_ws c \<longleftrightarrow> c = CHR '' '' \<or> c = CHR 0x09 \<or> c = CHR 0x0A \<or> c = CHR 0x0D"

definition hex_value :: "char \<Rightarrow> nat option" where
  "hex_value c =
     (let n = (of_char c :: nat)
      in if 48 \<le> n \<and> n \<le> 57 then Some (n - 48)
         else if 97 \<le> n \<and> n \<le> 102 then Some (n - 87)
         else if 65 \<le> n \<and> n \<le> 70 then Some (n - 55)
         else None)"

definition unescape :: "char \<Rightarrow> char option" where
  "unescape c =
     (if c = CHR 0x22 then Some (CHR 0x22)
      else if c = CHR 0x5C then Some (CHR 0x5C)
      else if c = CHR ''/'' then Some (CHR ''/'')
      else if c = CHR ''b'' then Some (CHR 0x08)
      else if c = CHR ''f'' then Some (CHR 0x0C)
      else if c = CHR ''n'' then Some (CHR 0x0A)
      else if c = CHR ''r'' then Some (CHR 0x0D)
      else if c = CHR ''t'' then Some (CHR 0x09)
      else None)"

fun step :: "json_state \<Rightarrow> char \<Rightarrow> json_state option" where
  "step Start c =
     (if is_ws c then Some Start else if c = CHR ''['' then Some FirstElem else None)"
| "step FirstElem c =
     (if is_ws c then Some FirstElem
      else if c = CHR 0x22 then Some (InString [] [])
      else if c = CHR '']'' then Some (Done [])
      else None)"
| "step (NextElem xs) c =
     (if is_ws c then Some (NextElem xs)
      else if c = CHR 0x22 then Some (InString xs [])
      else None)"
| "step (InString xs s) c =
     (if c = CHR 0x22 then Some (AfterElem (xs @ [s]))
      else if c = CHR 0x5C then Some (Escape xs s)
      else if (of_char c :: nat) < 32 then None
      else Some (InString xs (s @ [c])))"
| "step (Escape xs s) c =
     (if c = CHR ''u'' then Some (Unicode xs s [])
      else map_option (\<lambda>d. InString xs (s @ [d])) (unescape c))"
| "step (Unicode xs s ds) c =
     (case hex_value c of
        None \<Rightarrow> None
      | Some d \<Rightarrow>
          if length ds < 3 then Some (Unicode xs s (ds @ [d]))
          else let v = foldl (\<lambda>a b. 16 * a + b) 0 (ds @ [d])
               in if v < 256 then Some (InString xs (s @ [char_of v])) else None)"
| "step (AfterElem xs) c =
     (if is_ws c then Some (AfterElem xs)
      else if c = CHR '','' then Some (NextElem xs)
      else if c = CHR '']'' then Some (Done xs)
      else None)"
| "step (Done xs) c = (if is_ws c then Some (Done xs) else None)"

fun run :: "json_state \<Rightarrow> string \<Rightarrow> string list option" where
  "run st [] = (case st of Done xs \<Rightarrow> Some xs | _ \<Rightarrow> None)"
| "run st (c # cs) = (case step st c of None \<Rightarrow> None | Some st' \<Rightarrow> run st' cs)"

definition JSON_parse_strings :: "string \<Rightarrow> string list option" where
  "JSON_parse_strings text = run Start text"

text \<open>\<open>parseJsonArray\<close>: a falsy \<open>str\<close> gives the empty array at once.\<close>

definition parseJsonArray :: "string option \<Rightarrow> string list" where
  "parseJsonArray str =
     if_truthy str (\<lambda>s. case JSON_parse_strings s of None \<Rightarrow> [] | Some parsed \<Rightarrow> parsed) []"


text \<open>
  The cells of a table row that do not depend on the locale: \<open>obs.title || 'Untitled'\<close> and
  \<open>extractFirstFile(obs.files_modified)\<close>. \<open>generateContext\<close> has no working directory to
  pass, so \<open>cwd\<close> takes its default, the empty string.
\<close>

definition row_title :: "observation_row \<Rightarrow> string" where
  "row_title obs = or_default (r_title obs) ''Untitled''"


section \<open>The worker service (services/worker-service.js)\<close>

text \<open>
  The tool use that the save hook posts. \<open>tool_name\<close> and \<open>tool_input\<close> may be absent;
  \<open>tool_response\<close> is not read by \<open>createSimpleObservation\<close>.
\<close>

record tool_input =
  file_path :: "string option"
  target_file :: "string option"
  command :: "string option"

record tool_use =
  tool_name :: "string option"
  tool_input :: "tool_input option"

text \<open>\<open>s.includes(t)\<close>: \<open>t\<close> occurs in \<open>s\<close> as a contiguous substring.\<close>

definition js_includes :: "string \<Rightarrow> string \<Rightarrow> bool" where
  "js_includes s t = sublist t s"

text \<open>\<open>tool_input?.file_path\<close> and its siblings.\<close>

definition input_field :: "(tool_input \<Rightarrow> string option) \<Rightarrow> tool_input option \<Rightarrow> string option" where
  "input_field f inp = (case inp of None \<Rightarrow> None | Some i \<Rightarrow> f i)"

text \<open>
  \<open>path.basename\<close> of Node on POSIX: trailing slashes are dropped, then everything up to
  the last slash.
\<close>

definition basename :: "string \<Rightarrow> string" where
  "basename p =
     rev (takeWhile (\<lambda>c. c \<noteq> CHR ''/'') (dropWhile (\<lambda>c. c = CHR ''/'') (rev p)))"

text \<open>The template literal \<open>`Tool: ${tool_name}`\<close> prints an absent name as \<open>undefined\<close>.\<close>

definition template_string :: "string option \<Rightarrow> string" where
  "template_string x = (case x of None \<Rightarrow> ''undefined'' | Some s \<Rightarrow> s)"

definition skipTools :: "string list" where
  "skipTools = [''Read'', ''LS'', ''Glob'']"

definition createSimpleObservation :: "tool_use \<Rightarrow> observation option" where
  "createSimpleObservation obs =
     (if list_ex (\<lambda>t. case tool_name obs of None \<Rightarrow> False | Some n \<Rightarrow> js_includes n t) skipTools
      then None
      else
        let type = (if (case tool_name obs of None \<Rightarrow> False
                        | Some n \<Rightarrow> js_includes n ''Write'' \<or> js_includes n ''Edit'')
                    then ''change''
                    else if (case tool_name obs of None \<Rightarrow> False | Some n \<Rightarrow> js_includes n ''Bash'')
                    then ''change'' else ''change'');
            files_modified =
              if_truthy (input_field file_path (tool_input obs)) (\<lambda>p. [p]) []
              @ if_truthy (input_field target_file (tool_input obs)) (\<lambda>p. [p]) [];
            files_read = [];
            title =
              if_truthy (input_field file_path (tool_input obs)) (\<lambda>p. ''Modified '' @ basename p)
                (if_truthy (input_field command (tool_input obs)) (\<lambda>c. ''Executed: '' @ take 40 c)
                   (or_default (tool_name obs) ''Tool execution''))
        in Some \<lparr>o_type = Some type,
                 o_title = Some title,
                 o_subtitle = Some (''Tool: '' @ template_string (tool_name obs)),
                 o_facts = Some [],
                 o_narrative = None,
                 o_concepts = Some [''what-changed''],
                 o_files_read = Some files_read,
                 o_files_modified = Some files_modified\<rparr>)"

text \<open>The tool uses that the first test of \<open>createSimpleObservation\<close> filters out.\<close>

definition skipped :: "tool_use \<Rightarrow> bool" where
  "skipped obs =
     (case tool_name obs of
        None \<Rightarrow> False
      | Some n \<Rightarrow> js_includes n ''Read'' \<or> js_includes n ''LS'' \<or> js_includes n ''Glob'')"

section \<open>Example inputs\<close>

definition t0 :: clock where
  "t0 = \<lparr>toISOString = ''2025-01-01T00:00:00.000Z'', getTime = 1735689600000\<rparr>"

definition blank_observation :: observation where
  "blank_observation =
     \<lparr>o_type = Some ''bugfix'', o_title = Some [], o_subtitle = Some [], o_facts = None,
      o_narrative = Some [], o_concepts = None, o_files_read = None, o_files_modified = None\<rparr>"

definition login_observation :: observation where
  "login_observation =
     \<lparr>o_type = Some ''bugfix'', o_title = Some ''Fixed login bug'', o_subtitle = None,
      o_facts = Some [''a'', ''b''], o_narrative = None, o_concepts = None, o_files_read = None,
      o_files_modified = Some [''src/auth.js'']\<rparr>"



definition bare_row :: "int \<Rightarrow> observation_row" where
  "bare_row i =
     observation_values t0 ''s1'' ''demo''
       \<lparr>o_type = None, o_title = None, o_subtitle = None, o_facts = None, o_narrative = None,
        o_concepts = None, o_files_read = None, o_files_modified = None\<rparr> None 0 i"

definition read_tool :: tool_use where
  "read_tool = \<lparr>tool_name = Some ''NotebookRead'',
      tool_input = Some \<lparr>file_path = Some ''/home/u/demo/src/auth.js'', target_file = None,
                         command = None\<rparr>\<rparr>"

definition edit_tool :: tool_use where
  "edit_tool = \<lparr>tool_name = Some ''Edit'',
      tool_input = Some \<lparr>file_path = Some ''/home/u/demo/src/auth.js'', target_file = None,
                         command = None\<rparr>\<rparr>"

definition bash_tool :: tool_use where
  "bash_tool = \<lparr>tool_name = Some ''Bash'',
      tool_input = Some \<lparr>file_path = None, target_file = None,
                         command = Some ''npm run build -- --mode production --verbose --color''\<rparr>\<rparr>"


text \<open>
  A stand-in for the full-text engine, to run \<open>searchObservations\<close> on an example: a
  query matches a row when it occurs in one of the indexed columns; the empty query is
  malformed.
\<close>

definition example_matches :: "string \<Rightarrow> fts_doc \<Rightarrow> bool" where
  "example_matches q d =
     (case d of (t, s, n, f) \<Rightarrow>
        list_ex (\<lambda>col. case col of None \<Rightarrow> False | Some text \<Rightarrow> js_includes text q) [t, s, n, f])"

definition example_fts5 :: "string \<Rightarrow> (fts_doc \<Rightarrow> bool) option" where
  "example_fts5 q = (if q = [] then None else Some (example_matches q))"

definition narrated :: "string \<Rightarrow> observation" where
  "narrated text =
     \<lparr>o_type = Some ''discovery'', o_title = Some ''Looked at the login flow'', o_subtitle = None,
      o_facts = None, o_narrative = Some text, o_concepts = None, o_files_read = None,
      o_files_modified = None\<rparr>"

definition t1 :: clock where
  "t1 = \<lparr>toISOString = ''2025-01-01T00:01:00.000Z'', getTime = 1735689660000\<rparr>"

definition t2 :: clock where
  "t2 = \<lparr>toISOString = ''2025-01-01T00:02:00.000Z'', getTime = 1735689720000\<rparr>"

definition example_database :: database where
  "example_database =
     snd (storeObservation
       (snd (storeObservation
         (snd (storeObservation empty_database t0 t0 ''s1'' ''demo''
                 (narrated ''The token expired too early'') None 0))
         t1 t1 ''s2'' ''other'' (narrated ''The token is refreshed on login'') None 0))
       t2 t2 ''s1'' ''demo'' (narrated ''Renamed a helper'') None 0)"

section \<open>Properties of the session operations\<close>

lemma find_None_append:
  "find P xs = None \<Longrightarrow> find P (xs @ [y]) = (if P y then Some y else None)"
  by (induction xs) (auto split: if_splits)

lemma find_None_iff_set: "find P xs = None \<longleftrightarrow> (\<forall>x \<in> set xs. \<not> P x)"
  by (induction xs) auto

lemma find_map_keeping:
  "(\<And>x. P (f x) = P x) \<Longrightarrow> find P (map f xs) = map_option f (find P xs)"
  by (induction xs) auto

lemma getSession_None_iff:
  "getSession db sid = None \<longleftrightarrow> (\<forall>s \<in> set (sessions db). s_session_id s \<noteq> sid)"
  by (simp add: getSession_def find_None_iff_set)

text \<open>What \<open>createSession\<close> does when the session is new.\<close>

lemma createSession_new:
  assumes "getSession db sid = None"
  shows "createSession db now sid project prompt
           = (Some (s_id (new_session_row db now sid project prompt)),
              db\<lparr>sessions := sessions db @ [new_session_row db now sid project prompt],
                 sessions_seq := s_id (new_session_row db now sid project prompt)\<rparr>)"
proof -
  from assms have none: "\<not> (\<exists>s \<in> set (sessions db). s_session_id s = sid)"
    by (simp add: getSession_None_iff)
  from assms have f: "find (\<lambda>s. s_session_id s = sid) (sessions db) = None"
    by (simp add: getSession_def)
  have "s_session_id (new_session_row db now sid project prompt) = sid"
    by (simp add: new_session_row_def)
  then show ?thesis
    using none
    by (simp add: createSession_def insert_or_ignore_session_def Let_def getSession_def
        find_None_append [OF f])
qed

text \<open>One increment on a session that exists with a counter that is not \<open>-1\<close>.\<close>

lemma incrementPromptCounter_existing:
  assumes "getSession db sid = Some row" and "s_prompt_counter row \<noteq> - 1"
  shows "\<exists>db'. incrementPromptCounter db sid = (s_prompt_counter row + 1, db')
          \<and> getSession db' sid = Some (row\<lparr>s_prompt_counter := s_prompt_counter row + 1\<rparr>)"
proof -
  let ?f = "\<lambda>s. if s_session_id s = sid
                 then s\<lparr>s_prompt_counter := s_prompt_counter s + 1\<rparr> else s"
  have keep: "\<And>x. (s_session_id (?f x) = sid) = (s_session_id x = sid)"
    by simp
  have fm: "find (\<lambda>s. s_session_id s = sid) (map ?f (sessions db))
            = map_option ?f (find (\<lambda>s. s_session_id s = sid) (sessions db))"
    by (rule find_map_keeping) simp
  from assms(1) have sid: "s_session_id row = sid"
    by (auto simp: getSession_def find_Some_iff)
  show ?thesis
    using assms sid by (simp add: incrementPromptCounter_def getSession_def fm Let_def)
qed

lemma incrementPromptCounter_missing:
  assumes "getSession db sid = None"
  shows "incrementPromptCounter db sid = (1, db)"
proof -
  from assms have "\<forall>s \<in> set (sessions db). s_session_id s \<noteq> sid"
    by (simp add: getSession_None_iff)
  then have "map (\<lambda>s. if s_session_id s = sid
                       then s\<lparr>s_prompt_counter := s_prompt_counter s + 1\<rparr> else s) (sessions db)
             = sessions db"
    by (induction "sessions db") (auto simp: map_idI)
  then show ?thesis
    using assms by (simp add: incrementPromptCounter_def Let_def)
qed

text \<open>
  C4. On a session that createSession has just created, three calls of
  incrementPromptCounter in a row return 1, 2 and 3; on a session id that has no session
  row, incrementPromptCounter returns the default 1 (and changes nothing).
\<close>

theorem incrementPromptCounter_sequence:
  assumes "getSession db sid = None"
  shows "(let (i, db0) = createSession db now sid project prompt;
              (a, db1) = incrementPromptCounter db0 sid;
              (b, db2) = incrementPromptCounter db1 sid;
              (c, db3) = incrementPromptCounter db2 sid
          in [a, b, c]) = [1, 2, 3]
         \<and> incrementPromptCounter db sid = (1, db)"
proof -
  define row where "row = new_session_row db now sid project prompt"
  have cs: "createSession db now sid project prompt
        = (Some (s_id row), db\<lparr>sessions := sessions db @ [row], sessions_seq := s_id row\<rparr>)"
    unfolding row_def by (rule createSession_new [OF assms])
  have row: "s_session_id row = sid" "s_prompt_counter row = 0"
    by (simp_all add: row_def new_session_row_def)
  let ?db0 = "db\<lparr>sessions := sessions db @ [row], sessions_seq := s_id row\<rparr>"
  from assms have f: "find (\<lambda>s. s_session_id s = sid) (sessions db) = None"
    by (simp add: getSession_def)
  have g0: "getSession ?db0 sid = Some row"
    using row by (simp add: getSession_def find_None_append [OF f])
  obtain db1 where i1: "incrementPromptCounter ?db0 sid = (1, db1)"
    and g1: "getSession db1 sid = Some (row\<lparr>s_prompt_counter := 1\<rparr>)"
    using incrementPromptCounter_existing [OF g0] row by auto
  obtain db2 where i2: "incrementPromptCounter db1 sid = (2, db2)"
    and g2: "getSession db2 sid = Some (row\<lparr>s_prompt_counter := 2\<rparr>)"
    using incrementPromptCounter_existing [OF g1] by auto
  obtain db3 where i3: "incrementPromptCounter db2 sid = (3, db3)"
    using incrementPromptCounter_existing [OF g2] by auto
  show ?thesis
    using cs i1 i2 i3 incrementPromptCounter_missing [OF assms] by simp
qed

theorem incrementPromptCounter_sequence_witness:
  "getSession empty_database ''s1'' = None
   \<and> (let (i, db0) = createSession empty_database
                       \<lparr>toISOString = ''2025-01-01T00:00:00.000Z'', getTime = 1735689600000\<rparr>
                       ''s1'' ''demo'' ''Fix the bug'';
          (a, db1) = incrementPromptCounter db0 ''s1'';
          (b, db2) = incrementPromptCounter db1 ''s1'';
          (c, db3) = incrementPromptCounter db2 ''s1''
      in [a, b, c]) = [1, 2, 3]
   \<and> incrementPromptCounter empty_database ''s1'' = (1, empty_database)"
proof -
  have h: "getSession empty_database ''s1'' = None"
    by (simp add: getSession_def empty_database_def)
  show ?thesis
    using h incrementPromptCounter_sequence [OF h] by simp
qed

section \<open>Properties of the observation and summary operations\<close>

lemma fold_max_ge_init: "seq \<le> fold max ids (seq::int)"
proof (induction ids arbitrary: seq)
  case Nil
  show ?case by simp
next
  case (Cons a ids)
  have "seq \<le> max a seq" by simp
  also have "\<dots> \<le> fold max ids (max a seq)" by (rule Cons.IH)
  finally show ?case by simp
qed

lemma fold_max_ge_member: "x \<in> set ids \<Longrightarrow> x \<le> fold max ids (seq::int)"
proof (induction ids arbitrary: seq)
  case Nil
  then show ?case by simp
next
  case (Cons a ids)
  show ?case
  proof (cases "x = a")
    case True
    have "x \<le> max a seq" using True by simp
    also have "\<dots> \<le> fold max ids (max a seq)" by (rule fold_max_ge_init)
    finally show ?thesis by simp
  next
    case False
    with Cons.prems have "x \<in> set ids" by simp
    then show ?thesis using Cons.IH by simp
  qed
qed

lemma next_rowid_fresh: "x \<in> set ids \<Longrightarrow> x < next_rowid seq ids"
  using fold_max_ge_member [of x ids seq] by (simp add: next_rowid_def)

lemma createSession_sessions:
  "sessions (snd (createSession db now sid project prompt)) =
     (if getSession db sid = None then sessions db @ [new_session_row db now sid project prompt]
      else if project \<noteq> []
        then map (\<lambda>s. if s_session_id s = sid
                       then s\<lparr>s_project := project, s_user_prompt := Some prompt\<rparr> else s)
                 (sessions db)
      else sessions db)"
  by (auto simp: createSession_def insert_or_ignore_session_def Let_def getSession_None_iff
      update_project_prompt_def)

lemma createSession_other_tables:
  "observations (snd (createSession db now sid project prompt)) = observations db"
  "observations_seq (snd (createSession db now sid project prompt)) = observations_seq db"
  "session_summaries (snd (createSession db now sid project prompt)) = session_summaries db"
  "session_summaries_seq (snd (createSession db now sid project prompt)) = session_summaries_seq db"
  by (auto simp: createSession_def insert_or_ignore_session_def Let_def update_project_prompt_def)

lemma createSession_ensures:
  "\<exists>s \<in> set (sessions (snd (createSession db now sid project prompt))). s_session_id s = sid"
proof (cases "getSession db sid = None")
  case True
  then show ?thesis
    by (simp add: createSession_sessions new_session_row_def)
next
  case False
  then obtain s where s: "s \<in> set (sessions db)" "s_session_id s = sid"
    by (auto simp: getSession_None_iff)
  show ?thesis
  proof (cases "project = []")
    case True
    then show ?thesis using False s by (auto simp: createSession_sessions)
  next
    case np: False
    let ?f = "\<lambda>s. if s_session_id s = sid
                   then s\<lparr>s_project := project, s_user_prompt := Some prompt\<rparr> else s"
    have "?f s \<in> set (map ?f (sessions db))" using s(1) unfolding set_map by (rule imageI)
    moreover have "s_session_id (?f s) = sid" using s(2) by simp
    ultimately show ?thesis
      using False np unfolding createSession_sessions by (auto intro: bexI [of _ "?f s"])
  qed
qed

lemma getSession_after_createSession:
  "getSession (snd (createSession db now sid project prompt)) sid \<noteq> None"
  using createSession_ensures [where sid = sid and db = db and now = now and project = project
      and prompt = prompt]
  by (auto simp: getSession_None_iff)

lemma storeObservation_accepted:
  assumes "or_default (o_type obs) ''change'' \<in> set valid_types"
  shows "storeObservation db now now' sid project obs pn dt =
           (Inr \<lparr>sr_id = next_rowid (observations_seq db) (map r_id (observations db)),
                 sr_createdAtEpoch = getTime now\<rparr>,
            (snd (createSession db now' sid project []))
              \<lparr>observations := observations db @
                   [observation_values now sid project obs pn dt
                      (next_rowid (observations_seq db) (map r_id (observations db)))],
               observations_seq := next_rowid (observations_seq db) (map r_id (observations db))\<rparr>)"
proof -
  obtain i db1 where cs: "createSession db now' sid project [] = (i, db1)"
    by (cases "createSession db now' sid project []")
  have db1: "db1 = snd (createSession db now' sid project [])" by (simp add: cs)
  have ex: "\<exists>s \<in> set (sessions db1). s_session_id s = sid"
    unfolding db1 by (rule createSession_ensures)
  have tabs: "observations db1 = observations db" "observations_seq db1 = observations_seq db"
    unfolding db1 by (rule createSession_other_tables)+
  have ty: "r_type (observation_values now sid project obs pn dt k) \<in> set valid_types" for k
    using assms by (simp add: observation_values_def)
  have sidv: "r_session_id (observation_values now sid project obs pn dt k) = sid" for k
    by (simp add: observation_values_def)
  show ?thesis
    using ex ty
    by (simp add: storeObservation_def cs insert_observation_def Let_def tabs sidv)
qed

lemma storeObservation_rejected:
  assumes "or_default (o_type obs) ''change'' \<notin> set valid_types"
  shows "storeObservation db now now' sid project obs pn dt =
           (Inl SQLITE_CONSTRAINT_CHECK, snd (createSession db now' sid project []))"
proof -
  obtain i db1 where cs: "createSession db now' sid project [] = (i, db1)"
    by (cases "createSession db now' sid project []")
  have ty: "r_type (observation_values now sid project obs pn dt k) \<notin> set valid_types" for k
    using assms by (simp add: observation_values_def)
  show ?thesis
    using ty by (simp add: storeObservation_def cs insert_observation_def Let_def)
qed

lemma getObservationById_appended:
  assumes "observations db' = observations db @ [row]"
    and "r_id row = next_rowid seq (map r_id (observations db))"
  shows "getObservationById db' (r_id row) = Some row"
proof -
  have "\<forall>r \<in> set (observations db). r_id r \<noteq> r_id row"
    using next_rowid_fresh [of _ "map r_id (observations db)" seq] assms(2) by fastforce
  then have "find (\<lambda>r. r_id r = r_id row) (observations db) = None"
    by (simp add: find_None_iff_set)
  then show ?thesis
    by (simp add: getObservationById_def assms(1) find_None_append)
qed

lemma storeObservation_Inr_type:
  assumes "fst (storeObservation db now now' sid project obs pn dt) = Inr res"
  shows "or_default (o_type obs) ''change'' \<in> set valid_types"
proof (rule ccontr)
  assume "or_default (o_type obs) ''change'' \<notin> set valid_types"
  from storeObservation_rejected [OF this] assms show False by simp
qed

lemma storeObservation_stored_row:
  assumes "fst (storeObservation db now now' sid project obs pn dt) = Inr res"
  shows "getObservationById (snd (storeObservation db now now' sid project obs pn dt)) (sr_id res)
           = Some (observation_values now sid project obs pn dt (sr_id res))"
proof -
  let ?rid = "next_rowid (observations_seq db) (map r_id (observations db))"
  let ?row = "observation_values now sid project obs pn dt ?rid"
  note acc = storeObservation_accepted [OF storeObservation_Inr_type [OF assms],
      of db now now' sid project pn dt]
  from assms have res: "sr_id res = ?rid" by (auto simp: acc)
  have rid: "r_id ?row = ?rid" by (simp add: observation_values_def)
  have "getObservationById (snd (storeObservation db now now' sid project obs pn dt)) (r_id ?row)
          = Some ?row"
    by (rule getObservationById_appended [where db = db and seq = "observations_seq db"])
      (simp_all add: acc rid)
  then show ?thesis by (simp add: res rid)
qed

text \<open>
  C10. When storeObservation succeeds, the row that getObservationById returns for the
  returned id holds NULL, not the empty string, in each of title, subtitle and narrative that
  was supplied as the empty string.
\<close>

theorem storeObservation_empty_text_is_null:
  assumes "fst (storeObservation db now now' sid project obs pn dt) = Inr res"
  shows "\<exists>row. getObservationById (snd (storeObservation db now now' sid project obs pn dt))
                  (sr_id res) = Some row
           \<and> (o_title obs = Some [] \<longrightarrow> r_title row = None)
           \<and> (o_subtitle obs = Some [] \<longrightarrow> r_subtitle row = None)
           \<and> (o_narrative obs = Some [] \<longrightarrow> r_narrative row = None)"
  using storeObservation_stored_row [OF assms]
  by (simp add: observation_values_def or_null_def)

theorem storeObservation_empty_text_is_null_witness:
  "fst (storeObservation empty_database t0 t0 ''s1'' ''demo'' blank_observation None 0)
     = Inr \<lparr>sr_id = 1, sr_createdAtEpoch = 1735689600000\<rparr>
   \<and> o_title blank_observation = Some [] \<and> o_subtitle blank_observation = Some []
   \<and> o_narrative blank_observation = Some []
   \<and> (\<exists>row. getObservationById
                (snd (storeObservation empty_database t0 t0 ''s1'' ''demo'' blank_observation None 0)) 1
                = Some row
          \<and> r_title row = None \<and> r_subtitle row = None \<and> r_narrative row = None)"
proof -
  have h: "fst (storeObservation empty_database t0 t0 ''s1'' ''demo'' blank_observation None 0)
             = Inr \<lparr>sr_id = 1, sr_createdAtEpoch = 1735689600000\<rparr>"
    by code_simp
  have o: "o_title blank_observation = Some []" "o_subtitle blank_observation = Some []"
    "o_narrative blank_observation = Some []"
    by (simp_all add: blank_observation_def)
  show ?thesis
    using h o storeObservation_empty_text_is_null [OF h] by simp
qed











text \<open>What \<open>createSession\<close> does to a session that exists, and what a second call returns.\<close>

lemma createSession_existing:
  assumes "getSession db sid = Some s"
  shows "createSession db now sid project prompt
           = (Some (s_id s),
              if project \<noteq> [] then update_project_prompt db project prompt sid else db)"
    and "getSession (snd (createSession db now sid project prompt)) sid
           = Some (if project \<noteq> []
                   then s\<lparr>s_project := project, s_user_prompt := Some prompt\<rparr> else s)"
proof -
  have ex: "\<exists>s \<in> set (sessions db). s_session_id s = sid"
    using assms getSession_None_iff [of db sid] by auto
  from assms have sid: "s_session_id s = sid"
    by (auto simp: getSession_def find_Some_iff)
  let ?f = "\<lambda>s. if s_session_id s = sid
                 then s\<lparr>s_project := project, s_user_prompt := Some prompt\<rparr> else s"
  have fm: "find (\<lambda>s. s_session_id s = sid) (map ?f (sessions db))
            = map_option ?f (find (\<lambda>s. s_session_id s = sid) (sessions db))"
    by (rule find_map_keeping) simp
  have g: "getSession (update_project_prompt db project prompt sid) sid
             = Some (s\<lparr>s_project := project, s_user_prompt := Some prompt\<rparr>)"
    using assms sid by (simp add: getSession_def update_project_prompt_def fm)
  show "createSession db now sid project prompt
           = (Some (s_id s),
              if project \<noteq> [] then update_project_prompt db project prompt sid else db)"
    using ex assms g by (simp add: createSession_def insert_or_ignore_session_def)
  then show "getSession (snd (createSession db now sid project prompt)) sid
           = Some (if project \<noteq> []
                   then s\<lparr>s_project := project, s_user_prompt := Some prompt\<rparr> else s)"
    using assms g by simp
qed

lemma createSession_twice_same_id:
  "fst (createSession (snd (createSession db now sid project prompt)) now' sid project' prompt')
     = fst (createSession db now sid project prompt)"
proof -
  let ?db1 = "snd (createSession db now sid project prompt)"
  obtain s where gs: "getSession ?db1 sid = Some s"
    using getSession_after_createSession [of db now sid project prompt] by blast
  have "fst (createSession db now sid project prompt) = map_option s_id (getSession ?db1 sid)"
    by (simp add: createSession_def Let_def split: prod.splits)
  then have 1: "fst (createSession db now sid project prompt) = Some (s_id s)"
    using gs by simp
  have 2: "fst (createSession ?db1 now' sid project' prompt') = Some (s_id s)"
    by (simp add: createSession_existing(1) [OF gs])
  from 1 2 show ?thesis by simp
qed

lemma createSession_twice_one_row:
  assumes "getSession db sid = None"
  shows "length (filter (\<lambda>s. s_session_id s = sid)
           (sessions (snd (createSession (snd (createSession db now sid project prompt))
                             now' sid project' prompt')))) = 1"
proof -
  let ?db1 = "snd (createSession db now sid project prompt)"
  let ?new = "new_session_row db now sid project prompt"
  have s1: "sessions ?db1 = sessions db @ [?new]"
    using assms by (simp add: createSession_sessions)
  have g1: "getSession ?db1 sid \<noteq> None" by (rule getSession_after_createSession)
  from assms have none: "filter (\<lambda>s. s_session_id s = sid) (sessions db) = []"
    by (simp add: getSession_None_iff filter_empty_conv)
  have new: "s_session_id ?new = sid" by (simp add: new_session_row_def)
  let ?f = "\<lambda>s. if s_session_id s = sid
                 then s\<lparr>s_project := project', s_user_prompt := Some prompt'\<rparr> else s"
  have keep: "filter (\<lambda>s. s_session_id s = sid) (map ?f xs)
                = map ?f (filter (\<lambda>s. s_session_id s = sid) xs)" for xs
    by (induction xs) auto
  show ?thesis
    using g1 none new by (simp add: createSession_sessions [of ?db1] s1 keep)
qed

text \<open>
  C2. Calling createSession twice with the same session id, first with the prompt
  \<open>Fix the bug\<close> and then with the same project and an empty prompt (the call that
  storeObservation and storeSummary make), returns the same internal id twice and leaves
  one session row, but the second call replaces the stored prompt by the empty string:
  the \<open>UPDATE\<close> is guarded by the project alone.
\<close>

theorem createSession_overwrites_prompt_with_empty:
  "fst (createSession empty_database t0 ''s1'' ''demo'' ''Fix the bug'') = Some 1
   \<and> fst (createSession (snd (createSession empty_database t0 ''s1'' ''demo'' ''Fix the bug''))
            t0 ''s1'' ''demo'' []) = Some 1
   \<and> length (sessions (snd (createSession
              (snd (createSession empty_database t0 ''s1'' ''demo'' ''Fix the bug''))
              t0 ''s1'' ''demo'' []))) = 1
   \<and> map_option s_user_prompt (getSession (snd (createSession empty_database t0 ''s1'' ''demo''
              ''Fix the bug'')) ''s1'') = Some (Some ''Fix the bug'')
   \<and> map_option s_user_prompt (getSession (snd (createSession
              (snd (createSession empty_database t0 ''s1'' ''demo'' ''Fix the bug''))
              t0 ''s1'' ''demo'' [])) ''s1'') = Some (Some [])"
  by code_simp

section \<open>Properties of the JSON text of the array fields\<close>

lemma hex_digits_read_back: "\<forall>d \<in> set [0..<16]. hex_value (hex_digit d) = Some d"
  by code_simp

lemma hex_value_hex_digit: "d < 16 \<Longrightarrow> hex_value (hex_digit d) = Some d"
  using hex_digits_read_back by simp

lemma hex_value_zero: "hex_value (CHR ''0'') = Some 0"
  by (simp add: hex_value_def)

lemma run_UnicodeEscape:
  assumes "(of_char c :: nat) < 32"
  shows "run (InString xs s) (UnicodeEscape c @ rest) = run (InString xs (s @ [c])) rest"
proof -
  let ?n = "of_char c :: nat"
  have d1: "hex_value (hex_digit (?n div 16)) = Some (?n div 16)"
    using assms by (intro hex_value_hex_digit) simp
  have d2: "hex_value (hex_digit (?n mod 16)) = Some (?n mod 16)"
    by (intro hex_value_hex_digit) simp
  have v: "16 * (?n div 16) + ?n mod 16 = ?n" by simp
  have lt: "?n < 256" using assms by simp
  show ?thesis
    using lt by (simp add: UnicodeEscape_def hex_value_zero d1 d2 v)
qed

lemma run_QuoteJSONChar:
  "run (InString xs s) (QuoteJSONChar c @ rest) = run (InString xs (s @ [c])) rest"
proof (cases "(of_char c :: nat) < 32")
  case True
  then show ?thesis
    by (auto simp: QuoteJSONChar_def unescape_def run_UnicodeEscape)
next
  case False
  then show ?thesis
    by (auto simp: QuoteJSONChar_def unescape_def)
qed

lemma run_quoted_chars:
  "run (InString xs s) (concat (map QuoteJSONChar t) @ rest) = run (InString xs (s @ t)) rest"
proof (induction t arbitrary: s)
  case Nil
  show ?case by simp
next
  case (Cons c t)
  have "run (InString xs s) (concat (map QuoteJSONChar (c # t)) @ rest)
          = run (InString xs s) (QuoteJSONChar c @ (concat (map QuoteJSONChar t) @ rest))"
    by simp
  also have "\<dots> = run (InString xs (s @ [c])) (concat (map QuoteJSONChar t) @ rest)"
    by (rule run_QuoteJSONChar)
  also have "\<dots> = run (InString xs ((s @ [c]) @ t)) rest"
    by (rule Cons.IH)
  finally show ?case by simp
qed

text \<open>A quoted string read from the state that expects an element.\<close>

lemma run_QuoteJSONString_first:
  "run FirstElem (QuoteJSONString t @ rest) = run (AfterElem [t]) rest"
proof -
  have "run FirstElem (QuoteJSONString t @ rest)
          = run (InString [] []) (concat (map QuoteJSONChar t) @ (CHR 0x22 # rest))"
    by (simp add: QuoteJSONString_def is_ws_def)
  also have "\<dots> = run (InString [] ([] @ t)) (CHR 0x22 # rest)"
    by (rule run_quoted_chars)
  finally show ?thesis by simp
qed

lemma run_QuoteJSONString_next:
  "run (NextElem xs) (QuoteJSONString t @ rest) = run (AfterElem (xs @ [t])) rest"
proof -
  have "run (NextElem xs) (QuoteJSONString t @ rest)
          = run (InString xs []) (concat (map QuoteJSONChar t) @ (CHR 0x22 # rest))"
    by (simp add: QuoteJSONString_def is_ws_def)
  also have "\<dots> = run (InString xs ([] @ t)) (CHR 0x22 # rest)"
    by (rule run_quoted_chars)
  finally show ?thesis by simp
qed

lemma run_more_elements:
  "run (AfterElem xs) (concat (map (\<lambda>t. '','' @ QuoteJSONString t) ts) @ '']'')
     = Some (xs @ ts)"
proof (induction ts arbitrary: xs)
  case Nil
  show ?case by (simp add: is_ws_def)
next
  case (Cons t ts)
  have "run (AfterElem xs) (concat (map (\<lambda>t. '','' @ QuoteJSONString t) (t # ts)) @ '']'')
          = run (NextElem xs)
              (QuoteJSONString t @ (concat (map (\<lambda>t. '','' @ QuoteJSONString t) ts) @ '']''))"
    by (simp add: is_ws_def)
  also have "\<dots> = run (AfterElem (xs @ [t]))
                      (concat (map (\<lambda>t. '','' @ QuoteJSONString t) ts) @ '']'')"
    by (rule run_QuoteJSONString_next)
  also have "\<dots> = Some ((xs @ [t]) @ ts)"
    by (rule Cons.IH)
  finally show ?case by simp
qed

lemma join_comma:
  "join '','' (map QuoteJSONString (t # ts))
     = QuoteJSONString t @ concat (map (\<lambda>t. '','' @ QuoteJSONString t) ts)"
  by (induction ts arbitrary: t) simp_all

theorem JSON_parse_stringify: "JSON_parse_strings (JSON_stringify xs) = Some xs"
proof (cases xs)
  case Nil
  then show ?thesis
    by (simp add: JSON_parse_strings_def JSON_stringify_def is_ws_def)
next
  case (Cons t ts)
  have "JSON_parse_strings (JSON_stringify (t # ts))
          = run FirstElem (QuoteJSONString t
               @ (concat (map (\<lambda>t. '','' @ QuoteJSONString t) ts) @ '']''))"
    unfolding JSON_parse_strings_def JSON_stringify_def join_comma
    by (simp add: is_ws_def)
  also have "\<dots> = run (AfterElem [t]) (concat (map (\<lambda>t. '','' @ QuoteJSONString t) ts) @ '']'')"
    by (rule run_QuoteJSONString_first)
  also have "\<dots> = Some ([t] @ ts)"
    by (rule run_more_elements)
  finally show ?thesis using Cons by simp
qed

lemma JSON_stringify_not_empty: "JSON_stringify xs \<noteq> []"
  by (simp add: JSON_stringify_def)

lemma parseJsonArray_stringify: "parseJsonArray (Some (JSON_stringify xs)) = xs"
  by (simp add: parseJsonArray_def if_truthy_def JSON_parse_stringify JSON_stringify_not_empty)

text \<open>
  C5, as stated, fails: getObservationById returns the row as the table holds it, and the
  array columns hold text. With facts \<open>["a","b"]\<close> and no concepts, the facts of the row
  are the text \<open>["a","b"]\<close>, whose length is 9, and its concepts the text \<open>[]\<close>.
\<close>

theorem stored_arrays_are_text:
  "fst (storeObservation empty_database t0 t0 ''s1'' ''demo'' login_observation None 0)
     = Inr \<lparr>sr_id = 1, sr_createdAtEpoch = 1735689600000\<rparr>
   \<and> map_option r_facts (getObservationById
        (snd (storeObservation empty_database t0 t0 ''s1'' ''demo'' login_observation None 0)) 1)
     = Some (Some ''[\"a\",\"b\"]'')
   \<and> map_option r_concepts (getObservationById
        (snd (storeObservation empty_database t0 t0 ''s1'' ''demo'' login_observation None 0)) 1)
     = Some (Some ''[]'')
   \<and> map_option (length_or_0 \<circ> r_facts) (getObservationById
        (snd (storeObservation empty_database t0 t0 ''s1'' ''demo'' login_observation None 0)) 1)
     = Some 9"
  by code_simp

text \<open>
  C5, amended. For every stored observation, getObservationById on the returned id yields
  a row whose four array fields are never NULL: each holds the JSON text of the sequence
  that was supplied (of the empty sequence when none was), and parseJsonArray reads that
  text back to the same sequence in the same order. Facts \<open>["a","b"]\<close> are held as the
  text \<open>["a","b"]\<close>, and a field that was not supplied as the text \<open>[]\<close>.
\<close>

theorem stored_arrays_roundtrip:
  assumes "fst (storeObservation db now now' sid project obs pn dt) = Inr res"
  shows "\<exists>row. getObservationById (snd (storeObservation db now now' sid project obs pn dt))
                  (sr_id res) = Some row
     \<and> r_facts row = Some (JSON_stringify (or_empty (o_facts obs)))
     \<and> r_concepts row = Some (JSON_stringify (or_empty (o_concepts obs)))
     \<and> r_files_read row = Some (JSON_stringify (or_empty (o_files_read obs)))
     \<and> r_files_modified row = Some (JSON_stringify (or_empty (o_files_modified obs)))
     \<and> parseJsonArray (r_facts row) = or_empty (o_facts obs)
     \<and> parseJsonArray (r_concepts row) = or_empty (o_concepts obs)
     \<and> parseJsonArray (r_files_read row) = or_empty (o_files_read obs)
     \<and> parseJsonArray (r_files_modified row) = or_empty (o_files_modified obs)
     \<and> (o_facts obs = Some [''a'', ''b''] \<longrightarrow> r_facts row = Some ''[\"a\",\"b\"]'')
     \<and> (o_facts obs = None \<longrightarrow> r_facts row = Some ''[]'')
     \<and> (o_concepts obs = None \<longrightarrow> r_concepts row = Some ''[]'')
     \<and> (o_files_read obs = None \<longrightarrow> r_files_read row = Some ''[]'')
     \<and> (o_files_modified obs = None \<longrightarrow> r_files_modified row = Some ''[]'')"
proof -
  have ab: "JSON_stringify [''a'', ''b''] = ''[\"a\",\"b\"]''"
    by (simp add: JSON_stringify_def QuoteJSONString_def QuoteJSONChar_def)
  have e: "JSON_stringify [] = ''[]''"
    by (simp add: JSON_stringify_def)
  show ?thesis
    using storeObservation_stored_row [OF assms]
    by (auto simp: observation_values_def parseJsonArray_stringify or_empty_def ab e)
qed

theorem stored_arrays_roundtrip_witness:
  "fst (storeObservation empty_database t0 t0 ''s1'' ''demo'' login_observation None 0)
     = Inr \<lparr>sr_id = 1, sr_createdAtEpoch = 1735689600000\<rparr>
   \<and> o_facts login_observation = Some [''a'', ''b''] \<and> o_concepts login_observation = None
   \<and> (\<exists>row. getObservationById
                (snd (storeObservation empty_database t0 t0 ''s1'' ''demo'' login_observation None 0)) 1
                = Some row
          \<and> r_facts row = Some ''[\"a\",\"b\"]'' \<and> parseJsonArray (r_facts row) = [''a'', ''b'']
          \<and> r_concepts row = Some ''[]'' \<and> parseJsonArray (r_concepts row) = []
          \<and> parseJsonArray (r_files_modified row) = [''src/auth.js''])"
proof -
  have h: "fst (storeObservation empty_database t0 t0 ''s1'' ''demo'' login_observation None 0)
             = Inr \<lparr>sr_id = 1, sr_createdAtEpoch = 1735689600000\<rparr>"
    by code_simp
  have o: "o_facts login_observation = Some [''a'', ''b'']" "o_concepts login_observation = None"
    "o_files_modified login_observation = Some [''src/auth.js'']"
    by (simp_all add: login_observation_def)
  have e: "or_empty (Some [''a'', ''b'']) = [''a'', ''b'']" "or_empty None = []"
    "or_empty (Some [''src/auth.js'']) = [''src/auth.js'']"
    by (simp_all add: or_empty_def)
  from stored_arrays_roundtrip [OF h] obtain row where
    r: "getObservationById
       (snd (storeObservation empty_database t0 t0 ''s1'' ''demo'' login_observation None 0))
       (sr_id \<lparr>sr_id = 1, sr_createdAtEpoch = 1735689600000\<rparr>) = Some row
     \<and> r_facts row = Some (JSON_stringify (or_empty (o_facts login_observation)))
     \<and> r_concepts row = Some (JSON_stringify (or_empty (o_concepts login_observation)))
     \<and> r_files_read row = Some (JSON_stringify (or_empty (o_files_read login_observation)))
     \<and> r_files_modified row = Some (JSON_stringify (or_empty (o_files_modified login_observation)))
     \<and> parseJsonArray (r_facts row) = or_empty (o_facts login_observation)
     \<and> parseJsonArray (r_concepts row) = or_empty (o_concepts login_observation)
     \<and> parseJsonArray (r_files_read row) = or_empty (o_files_read login_observation)
     \<and> parseJsonArray (r_files_modified row) = or_empty (o_files_modified login_observation)
     \<and> (o_facts login_observation = Some [''a'', ''b''] \<longrightarrow> r_facts row = Some ''[\"a\",\"b\"]'')
     \<and> (o_facts login_observation = None \<longrightarrow> r_facts row = Some ''[]'')
     \<and> (o_concepts login_observation = None \<longrightarrow> r_concepts row = Some ''[]'')
     \<and> (o_files_read login_observation = None \<longrightarrow> r_files_read row = Some ''[]'')
     \<and> (o_files_modified login_observation = None \<longrightarrow> r_files_modified row = Some ''[]'')"
    by (rule exE)
  from r have g0: "getObservationById
       (snd (storeObservation empty_database t0 t0 ''s1'' ''demo'' login_observation None 0))
       (sr_id \<lparr>sr_id = 1, sr_createdAtEpoch = 1735689600000\<rparr>) = Some row"
    by (elim conjE)
  have i: "sr_id \<lparr>sr_id = 1, sr_createdAtEpoch = 1735689600000\<rparr> = 1"
    by simp
  from g0 have g1: "getObservationById
       (snd (storeObservation empty_database t0 t0 ''s1'' ''demo'' login_observation None 0)) 1
       = Some row"
    unfolding i by assumption
  from r have "parseJsonArray (r_facts row) = or_empty (o_facts login_observation)"
    by (elim conjE)
  then have p1: "parseJsonArray (r_facts row) = [''a'', ''b'']"
    by (simp only: o e)
  from r have "parseJsonArray (r_concepts row) = or_empty (o_concepts login_observation)"
    by (elim conjE)
  then have p2: "parseJsonArray (r_concepts row) = []"
    by (simp only: o e)
  from r have "parseJsonArray (r_files_modified row) = or_empty (o_files_modified login_observation)"
    by (elim conjE)
  then have p3: "parseJsonArray (r_files_modified row) = [''src/auth.js'']"
    by (simp only: o e)
  from r have "o_facts login_observation = Some [''a'', ''b''] \<longrightarrow> r_facts row = Some ''[\"a\",\"b\"]''"
    by (elim conjE)
  with o(1) have t1: "r_facts row = Some ''[\"a\",\"b\"]''"
    by (rule rev_mp)
  from r have "o_concepts login_observation = None \<longrightarrow> r_concepts row = Some ''[]''"
    by (elim conjE)
  with o(2) have t2: "r_concepts row = Some ''[]''"
    by (rule rev_mp)
  have c: "getObservationById
                (snd (storeObservation empty_database t0 t0 ''s1'' ''demo'' login_observation None 0)) 1
                = Some row
          \<and> r_facts row = Some ''[\"a\",\"b\"]'' \<and> parseJsonArray (r_facts row) = [''a'', ''b'']
          \<and> r_concepts row = Some ''[]'' \<and> parseJsonArray (r_concepts row) = []
          \<and> parseJsonArray (r_files_modified row) = [''src/auth.js'']"
    using g1 t1 p1 t2 p2 p3 by (intro conjI)
  have ex: "\<exists>row. getObservationById
                (snd (storeObservation empty_database t0 t0 ''s1'' ''demo'' login_observation None 0)) 1
                = Some row
          \<and> r_facts row = Some ''[\"a\",\"b\"]'' \<and> parseJsonArray (r_facts row) = [''a'', ''b'']
          \<and> r_concepts row = Some ''[]'' \<and> parseJsonArray (r_concepts row) = []
          \<and> parseJsonArray (r_files_modified row) = [''src/auth.js'']"
    by (rule exI [of _ row]) (rule c)
  from h o(1) o(2) ex show ?thesis by (intro conjI)
qed

section \<open>Properties of search\<close>

lemma sorted_desc_sort_key:
  "sorted_wrt (\<lambda>a b. r_created_at_epoch b \<le> r_created_at_epoch a)
     (sort_key (\<lambda>r. - r_created_at_epoch r) rows)"
proof -
  have "sorted (map (\<lambda>r. - r_created_at_epoch r) (sort_key (\<lambda>r. - r_created_at_epoch r) rows))"
    by (rule sorted_sort_key)
  then show ?thesis by (simp add: sorted_map)
qed

lemma sql_limit_props:
  fixes R :: "'a \<Rightarrow> 'a \<Rightarrow> bool"
  assumes "sorted_wrt R rows"
  shows "set (sql_limit n rows) \<subseteq> set rows"
    and "sorted_wrt R (sql_limit n rows)"
    and "length (sql_limit n rows) = (if n < 0 then length rows else min (nat n) (length rows))"
    and "\<forall>x \<in> set rows. x \<notin> set (sql_limit n rows) \<longrightarrow> (\<forall>y \<in> set (sql_limit n rows). R y x)"
proof -
  show "set (sql_limit n rows) \<subseteq> set rows"
    by (auto simp: sql_limit_def dest: in_set_takeD)
  show "sorted_wrt R (sql_limit n rows)"
    using assms by (simp add: sql_limit_def sorted_wrt_take)
  show "length (sql_limit n rows) = (if n < 0 then length rows else min (nat n) (length rows))"
    by (simp add: sql_limit_def min.commute)
  show "\<forall>x \<in> set rows. x \<notin> set (sql_limit n rows) \<longrightarrow> (\<forall>y \<in> set (sql_limit n rows). R y x)"
  proof (cases "n < 0")
    case True
    then show ?thesis by (simp add: sql_limit_def)
  next
    case False
    have "sorted_wrt R (take (nat n) rows @ drop (nat n) rows)" using assms by simp
    then have *: "\<forall>y \<in> set (take (nat n) rows). \<forall>x \<in> set (drop (nat n) rows). R y x"
      unfolding sorted_wrt_append by blast
    have "set rows = set (take (nat n) rows) \<union> set (drop (nat n) rows)"
      by (metis append_take_drop_id set_append)
    with * False show ?thesis by (auto simp: sql_limit_def)
  qed
qed

text \<open>
  C6. For every query that the engine accepts and every non-empty project,
  searchObservations with the project filter returns only observations of that project
  whose indexed columns match the query, ordered by creation epoch descending. The filter
  comes before the limit: the result has as many rows as the limit allows among all the
  matching rows of the project, and every matching row of the project that is left out is
  no newer than each row returned.
\<close>

theorem searchObservations_project_filter:
  assumes "fts query = Some matches" and "project \<noteq> []"
  shows "\<exists>rows. searchObservations fts db query (Some project) limit = Inr rows
     \<and> (\<forall>r \<in> set rows. r \<in> set (observations db) \<and> r_project r = project
                        \<and> matches (fts_columns r))
     \<and> sorted_wrt (\<lambda>a b. r_created_at_epoch b \<le> r_created_at_epoch a) rows
     \<and> length rows =
         (let n = length (filter (\<lambda>r. matches (fts_columns r) \<and> r_project r = project)
                           (observations db))
          in if limit < 0 then n else min (nat limit) n)
     \<and> (\<forall>r \<in> set (observations db).
           matches (fts_columns r) \<and> r_project r = project \<and> r \<notin> set rows \<longrightarrow>
           (\<forall>r' \<in> set rows. r_created_at_epoch r \<le> r_created_at_epoch r'))"
proof -
  let ?w = "\<lambda>r. matches (fts_columns r) \<and> r_project r = project"
  let ?sorted = "sort_key (\<lambda>r. - r_created_at_epoch r) (filter ?w (observations db))"
  let ?rows = "sql_limit limit ?sorted"
  let ?R = "\<lambda>a b. r_created_at_epoch b \<le> r_created_at_epoch a"
  have res: "searchObservations fts db query (Some project) limit = Inr ?rows"
    using assms by (simp add: searchObservations_def if_truthy_def)
  have srt: "sorted_wrt ?R ?sorted" by (rule sorted_desc_sort_key)
  note lim = sql_limit_props [OF srt, of limit]
  have set_sorted: "set ?sorted = {r \<in> set (observations db). ?w r}" by simp
  have a: "\<forall>r \<in> set ?rows. r \<in> set (observations db) \<and> r_project r = project
             \<and> matches (fts_columns r)"
    using lim(1) set_sorted by auto
  have c: "length ?rows =
         (let n = length (filter ?w (observations db))
          in if limit < 0 then n else min (nat limit) n)"
    using lim(3) by (simp add: Let_def)
  have d: "\<forall>r \<in> set (observations db).
             matches (fts_columns r) \<and> r_project r = project \<and> r \<notin> set ?rows \<longrightarrow>
             (\<forall>r' \<in> set ?rows. r_created_at_epoch r \<le> r_created_at_epoch r')"
    using lim(4) set_sorted by auto
  show ?thesis
    using res a lim(2) c d by (intro exI [of _ ?rows]) (intro conjI; assumption)
qed

theorem searchObservations_project_filter_witness:
  "example_fts5 ''token'' = Some (example_matches ''token'') \<and> ''demo'' \<noteq> []
   \<and> (\<exists>rows. searchObservations example_fts5 example_database ''token'' (Some ''demo'') 20 = Inr rows
     \<and> (\<forall>r \<in> set rows. r \<in> set (observations example_database) \<and> r_project r = ''demo''
                        \<and> example_matches ''token'' (fts_columns r))
     \<and> sorted_wrt (\<lambda>a b. r_created_at_epoch b \<le> r_created_at_epoch a) rows
     \<and> length rows =
         (let n = length (filter (\<lambda>r. example_matches ''token'' (fts_columns r)
                                       \<and> r_project r = ''demo'')
                           (observations example_database))
          in if (20::int) < 0 then n else min (nat 20) n)
     \<and> (\<forall>r \<in> set (observations example_database).
           example_matches ''token'' (fts_columns r) \<and> r_project r = ''demo'' \<and> r \<notin> set rows \<longrightarrow>
           (\<forall>r' \<in> set rows. r_created_at_epoch r \<le> r_created_at_epoch r')))
   \<and> map_sum id (map r_id)
        (searchObservations example_fts5 example_database ''token'' (Some ''demo'') 20) = Inr [1]
   \<and> map_sum id (map r_id)
        (searchObservations example_fts5 example_database ''token'' None 20) = Inr [2, 1]"
proof -
  have h1: "example_fts5 ''token'' = Some (example_matches ''token'')"
    by (simp add: example_fts5_def)
  have h2: "''demo'' \<noteq> []" by simp
  have e1: "map_sum id (map r_id)
        (searchObservations example_fts5 example_database ''token'' (Some ''demo'') 20) = Inr [1]"
    by code_simp
  have e2: "map_sum id (map r_id)
        (searchObservations example_fts5 example_database ''token'' None 20) = Inr [2, 1]"
    by code_simp
  from h1 h2
    searchObservations_project_filter [where fts = example_fts5 and query = "''token''"
      and matches = "example_matches ''token''" and project = "''demo''"
      and db = example_database and limit = 20, OF h1 h2]
    e1 e2
  show ?thesis by (intro conjI)
qed

section \<open>Properties of the context generator\<close>

lemma ceil_div4: "nat \<lceil>real n / 4\<rceil> = (n + 3) div 4"
proof -
  have "\<lceil>real n / 4\<rceil> = \<lceil>real_of_int (int n) / real_of_int 4\<rceil>" by simp
  also have "\<dots> = - ((- int n) div 4)" by (simp only: ceiling_divide_eq_div)
  also have "\<dots> = (int n + 3) div 4" by linarith
  finally have "\<lceil>real n / 4\<rceil> = (int n + 3) div 4" .
  then have "nat \<lceil>real n / 4\<rceil> = nat ((int n + 3) div 4)" by simp
  also have "\<dots> = (n + 3) div 4" by linarith
  finally show ?thesis .
qed

lemma foldl_plus_acc:
  "foldl (\<lambda>sum x. sum + f x) a xs = a + sum_list (map f xs)" for a :: nat
  by (induction xs arbitrary: a) (simp_all add: add.assoc)

lemma read_size_bare: "read_size (bare_row i) = 2"
  by (simp add: read_size_def bare_row_def observation_values_def length_or_0_def or_null_def
      or_empty_def JSON_stringify_def)

text \<open>
  C3, as stated, fails: for two observations stored with no text and no facts, each of
  size 2 (the text \<open>[]\<close>), the estimate is 1 + 1 = 2, and the single ceiling over the
  total of 4 code units is 1.
\<close>

theorem totalReadTokens_not_single_ceiling:
  "totalReadTokens [bare_row 1, bare_row 2] = 2
   \<and> nat \<lceil>real (read_size (bare_row 1) + read_size (bare_row 2)) / 4\<rceil> = 1"
  unfolding totalReadTokens_def ceil_div4 by (simp add: read_size_bare)

lemma sum_ceil_ge: "(sum_list ns + 3) div 4 \<le> sum_list (map (\<lambda>n. (n + 3) div 4) ns)" for ns :: "nat list"
proof (induction ns)
  case Nil
  show ?case by simp
next
  case (Cons n ns)
  have "(n + sum_list ns + 3) div 4 \<le> (n + 3) div 4 + (sum_list ns + 3) div 4" by linarith
  with Cons show ?case by simp
qed

text \<open>
  C3, amended. The estimate of the tokens to read is the sum, over all fetched
  observations, of the ceiling of that observation's size divided by 4, the size being
  the lengths of title, subtitle, narrative and the JSON text of facts (0 for NULL): one
  ceiling for each observation. It is never below the single ceiling over the total.
\<close>

theorem totalReadTokens_per_observation:
  "totalReadTokens obss = (\<Sum>obs\<leftarrow>obss. nat \<lceil>real (read_size obs) / 4\<rceil>)
   \<and> nat \<lceil>real (\<Sum>obs\<leftarrow>obss. read_size obs) / 4\<rceil> \<le> totalReadTokens obss"
proof -
  have eq: "totalReadTokens obss
              = (\<Sum>obs\<leftarrow>obss. nat \<lceil>real (read_size obs) / 4\<rceil>)"
    by (simp add: totalReadTokens_def foldl_plus_acc)
  have "nat \<lceil>real (sum_list (map read_size obss)) / 4\<rceil>
          = (sum_list (map read_size obss) + 3) div 4"
    by (rule ceil_div4)
  also have "\<dots> \<le> sum_list (map (\<lambda>n. (n + 3) div 4) (map read_size obss))"
    by (rule sum_ceil_ge)
  also have "\<dots> = (\<Sum>obs\<leftarrow>obss. nat \<lceil>real (read_size obs) / 4\<rceil>)"
    by (simp add: ceil_div4 comp_def)
  finally show ?thesis using eq by simp
qed




section \<open>Properties of the worker service\<close>

lemma skipped_list_ex:
  "list_ex (\<lambda>t. case tool_name obs of None \<Rightarrow> False | Some n \<Rightarrow> js_includes n t) skipTools
     = skipped obs"
  by (cases "tool_name obs") (simp_all add: skipTools_def skipped_def)

text \<open>
  C8. createSimpleObservation produces no record for a tool whose name contains Read, LS
  or Glob. For any other tool, an input with a non-empty file_path gives the title
  \<open>Modified\<close> followed by the basename of the path, and the path is among files_modified;
  an input with no file_path (absent or empty) and a non-empty command gives the title
  \<open>Executed:\<close> followed by the first 40 code units of the command.
\<close>

theorem createSimpleObservation_titles:
  "(skipped obs \<longrightarrow> createSimpleObservation obs = None)
   \<and> (\<not> skipped obs \<and> tool_input obs = Some inp \<and> file_path inp = Some p \<and> p \<noteq> [] \<longrightarrow>
        (\<exists>ob fm. createSimpleObservation obs = Some ob
           \<and> o_title ob = Some (''Modified '' @ basename p)
           \<and> o_files_modified ob = Some fm \<and> p \<in> set fm))
   \<and> (\<not> skipped obs \<and> tool_input obs = Some inp
        \<and> (file_path inp = None \<or> file_path inp = Some [])
        \<and> command inp = Some c \<and> c \<noteq> [] \<longrightarrow>
        (\<exists>ob. createSimpleObservation obs = Some ob
           \<and> o_title ob = Some (''Executed: '' @ take 40 c)))"
  by (auto simp: createSimpleObservation_def skipped_list_ex Let_def if_truthy_def input_field_def)

theorem createSimpleObservation_titles_witness:
  "skipped read_tool \<and> createSimpleObservation read_tool = None
   \<and> \<not> skipped edit_tool
   \<and> (\<exists>ob fm. createSimpleObservation edit_tool = Some ob
         \<and> o_title ob = Some ''Modified auth.js''
         \<and> o_files_modified ob = Some fm \<and> ''/home/u/demo/src/auth.js'' \<in> set fm)
   \<and> \<not> skipped bash_tool
   \<and> (\<exists>ob. createSimpleObservation bash_tool = Some ob
         \<and> o_title ob = Some ''Executed: npm run build -- --mode production --ver'')"
proof -
  have s: "skipped read_tool" "\<not> skipped edit_tool" "\<not> skipped bash_tool"
    by code_simp+
  have b: "basename ''/home/u/demo/src/auth.js'' = ''auth.js''"
    by (simp add: basename_def)
  have e: "tool_input edit_tool = Some \<lparr>file_path = Some ''/home/u/demo/src/auth.js'',
             target_file = None, command = None\<rparr>"
    by (simp add: edit_tool_def)
  have c: "tool_input bash_tool = Some \<lparr>file_path = None, target_file = None,
             command = Some ''npm run build -- --mode production --verbose --color''\<rparr>"
    by (simp add: bash_tool_def)
  show ?thesis
    using s
      createSimpleObservation_titles [of read_tool]
      createSimpleObservation_titles [of edit_tool
        "\<lparr>file_path = Some ''/home/u/demo/src/auth.js'', target_file = None, command = None\<rparr>"
        "''/home/u/demo/src/auth.js''"]
      createSimpleObservation_titles [of bash_tool
        "\<lparr>file_path = None, target_file = None,
          command = Some ''npm run build -- --mode production --verbose --color''\<rparr>" _
        "''npm run build -- --mode production --verbose --color''"]
    by (simp add: b e c)
qed

end
